theory Spec2Isabelle
  imports Complex_Main
begin

section \<open>The door cut engine of \<open>DoorCalculator.tsx\<close>\<close>

text \<open>
  This theory embeds \<open>calculateCuts\<close> (src/renderer/src/pages/DoorCalculator.tsx,
  lines 102--205) together with the types it reads and returns, and proves the
  properties the specification states about it.
\<close>

subsection \<open>Numbers\<close>

text \<open>
  A TypeScript \<open>number\<close> is an IEEE-754 double. The engine only adds, subtracts,
  multiplies, divides by the constants 2, 10 and 100, compares, and calls
  \<open>Math.round\<close>. The model computes with exact real numbers, of which every
  finite double is one. Modelling assumption: all fields are finite and no operation
  rounds its result to 53 bits or overflows; \<open>NaN\<close> and the infinities are not
  values of the model. Negative zero is identified with zero (they compare equal in
  the source as well).
\<close>

type_synonym number = real

text \<open>
  \<open>Math.round(x)\<close> is the integer nearest to \<open>x\<close>, a tie going towards
  plus infinity (\<open>Math.round(2.5) = 3\<close>, \<open>Math.round(-2.5) = -2\<close>).
\<close>

definition Math_round :: "number \<Rightarrow> number" where
  "Math_round x = of_int \<lfloor>x + 1 / 2\<rfloor>"

text \<open>Line 185: \<open>const r = (v: number) => Math.round(v * 10) / 10\<close>.\<close>

definition r :: "number \<Rightarrow> number" where
  "r v = Math_round (v * 10) / 10"


subsection \<open>Types (lines 22--66)\<close>

text \<open>The type of \<open>handleSide\<close> is the union \<open>'left' | 'right'\<close>.\<close>

datatype handle_side = left | right

record DoorConfig =
  doorWidth :: number
  doorHeight :: number
  topMargin :: number
  bottomMargin :: number
  leftMargin :: number
  rightMargin :: number
  horizontalGap :: number
  verticalGap :: number
  beadingWidth :: number
  mdfPanelWidth :: number
  topPanelRatio :: number
  handleSide :: handle_side
  handleHeight :: number
  handleIndent :: number
  handleSpread :: number

record UnitPosition =
  label :: string
  beadingLeftX :: number
  beadingRightX :: number
  beadingY :: number
  pinX :: number
  pinY :: number

text \<open>
  The entries of \<open>errors\<close> are four fixed string literals. They are kept apart here
  by one constructor each; the source text is
  \<^item> \<open>ErrPanelWidth\<close>: "MDF panel width must be greater than 0."
  \<^item> \<open>ErrPanelTooWide\<close>: "MDF panel is too wide for the available space [dash]
    reduce panel width or increase door width/margins."
  \<^item> \<open>ErrTopPanelHeight\<close>: "Top panel height is negative [dash] adjust margins,
    gaps or ratio."
  \<^item> \<open>ErrBottomPanelHeight\<close>: "Bottom panel height is negative [dash] adjust
    margins, gaps or ratio."
\<close>

datatype error_message =
  ErrPanelWidth | ErrPanelTooWide | ErrTopPanelHeight | ErrBottomPanelHeight

text \<open>
  The one handle warning is a template string (lines 156--158) with the holes
  \<open>overlap.toFixed(1)\<close>, \<open>c.handleSide\<close> (twice) and \<open>c.handleSpread\<close>. The
  model keeps the three interpolated values and leaves the rendering to text out.
\<close>

datatype warning_message =
  HandleWarning (overlap_mm: number) (side: handle_side) (spread_mm: number)

record CutResult =
  panelWidth :: number
  topPanelHeight :: number
  bottomPanelHeight :: number
  topHorizontalBeading :: number
  topVerticalBeading :: number
  bottomHorizontalBeading :: number
  bottomVerticalBeading :: number
  topHorizontalBeadingShort :: number
  topVerticalBeadingShort :: number
  bottomHorizontalBeadingShort :: number
  bottomVerticalBeadingShort :: number
  panelBeadingGap :: number
  unitPositions :: "UnitPosition list"
  handleWarnings :: "warning_message list"
  isValid :: bool
  errors :: "error_message list"

subsection \<open>Defaults (lines 76--92)\<close>

definition defaultConfig :: DoorConfig where
  "defaultConfig = \<lparr>
     doorWidth = 762,
     doorHeight = 1981,
     topMargin = 100,
     bottomMargin = 100,
     leftMargin = 80,
     rightMargin = 80,
     horizontalGap = 80,
     verticalGap = 80,
     beadingWidth = 20,
     mdfPanelWidth = 215,
     topPanelRatio = 40,
     handleSide = left,
     handleHeight = 1000,
     handleIndent = 55,
     handleSpread = 140 \<rparr>"

subsection \<open>The local constants of \<open>calculateCuts\<close>\<close>

text \<open>
  Each \<open>const\<close> of the function body is a function of the configuration \<open>c\<close>,
  under the name it has in the source. A local whose name is also a field of
  \<open>CutResult\<close> carries a prime.
\<close>

definition availableWidth :: "DoorConfig \<Rightarrow> number" where
  "availableWidth c = doorWidth c - leftMargin c - rightMargin c - horizontalGap c"

definition availableHeight :: "DoorConfig \<Rightarrow> number" where
  "availableHeight c = doorHeight c - topMargin c - bottomMargin c - verticalGap c"

definition panelUnitWidth :: "DoorConfig \<Rightarrow> number" where
  "panelUnitWidth c = availableWidth c / 2"

definition panelWidth' :: "DoorConfig \<Rightarrow> number" where
  "panelWidth' c = mdfPanelWidth c"

definition panelBeadingGap' :: "DoorConfig \<Rightarrow> number" where
  "panelBeadingGap' c = (panelUnitWidth c - 2 * beadingWidth c - panelWidth' c) / 2"

definition topUnitHeight :: "DoorConfig \<Rightarrow> number" where
  "topUnitHeight c = availableHeight c * (topPanelRatio c / 100)"

definition bottomUnitHeight :: "DoorConfig \<Rightarrow> number" where
  "bottomUnitHeight c = availableHeight c * ((100 - topPanelRatio c) / 100)"

definition topPanelHeight' :: "DoorConfig \<Rightarrow> number" where
  "topPanelHeight' c = topUnitHeight c - 2 * beadingWidth c - 2 * panelBeadingGap' c"

definition bottomPanelHeight' :: "DoorConfig \<Rightarrow> number" where
  "bottomPanelHeight' c = bottomUnitHeight c - 2 * beadingWidth c - 2 * panelBeadingGap' c"

definition topHBeading :: "DoorConfig \<Rightarrow> number" where
  "topHBeading c = panelUnitWidth c"

definition topVBeading :: "DoorConfig \<Rightarrow> number" where
  "topVBeading c = topUnitHeight c"

definition botHBeading :: "DoorConfig \<Rightarrow> number" where
  "botHBeading c = panelUnitWidth c"

definition botVBeading :: "DoorConfig \<Rightarrow> number" where
  "botVBeading c = bottomUnitHeight c"

text \<open>
  Lines 128--135: four independent \<open>if\<close> statements, each pushing its message
  onto \<open>errors\<close>, in this order.
\<close>

definition errors' :: "DoorConfig \<Rightarrow> error_message list" where
  "errors' c =
     (if panelWidth' c \<le> 0 then [ErrPanelWidth] else []) @
     (if panelBeadingGap' c < 0 then [ErrPanelTooWide] else []) @
     (if topPanelHeight' c \<le> 0 then [ErrTopPanelHeight] else []) @
     (if bottomPanelHeight' c \<le> 0 then [ErrBottomPanelHeight] else [])"

text \<open>Lines 138--160: the handle check.\<close>

definition handleMargin :: "DoorConfig \<Rightarrow> number" where
  "handleMargin c = (if handleSide c = left then leftMargin c else rightMargin c)"

definition handleTop :: "DoorConfig \<Rightarrow> number" where
  "handleTop c = handleHeight c - 80"

definition handleBottom :: "DoorConfig \<Rightarrow> number" where
  "handleBottom c = handleHeight c + 80"

definition topUnitTop :: "DoorConfig \<Rightarrow> number" where
  "topUnitTop c = topMargin c"

definition topUnitBottom :: "DoorConfig \<Rightarrow> number" where
  "topUnitBottom c = topMargin c + topUnitHeight c"

definition bottomUnitTop :: "DoorConfig \<Rightarrow> number" where
  "bottomUnitTop c = topMargin c + topUnitHeight c + verticalGap c"

definition bottomUnitBottom :: "DoorConfig \<Rightarrow> number" where
  "bottomUnitBottom c = bottomUnitTop c + bottomUnitHeight c"

definition overlapsTop :: "DoorConfig \<Rightarrow> bool" where
  "overlapsTop c \<longleftrightarrow> handleBottom c > topUnitTop c \<and> handleTop c < topUnitBottom c"

definition overlapsBottom :: "DoorConfig \<Rightarrow> bool" where
  "overlapsBottom c \<longleftrightarrow> handleBottom c > bottomUnitTop c \<and> handleTop c < bottomUnitBottom c"

definition overlap :: "DoorConfig \<Rightarrow> number" where
  "overlap c = handleSpread c - handleMargin c"

definition handleWarnings' :: "DoorConfig \<Rightarrow> warning_message list" where
  "handleWarnings' c =
     (if handleSpread c > handleMargin c then
        (if overlapsTop c \<or> overlapsBottom c
         then [HandleWarning (overlap c) (handleSide c) (handleSpread c)]
         else [])
      else [])"

text \<open>
  Lines 163--183: the two arrays of origins, the labels, and the nested loop
  \<open>for ri in 0,1: for ci in 0,1\<close> that pushes one position per grid cell. Every
  index the loop uses is inside its array.
\<close>

definition colXs :: "DoorConfig \<Rightarrow> number list" where
  "colXs c = [leftMargin c, leftMargin c + panelUnitWidth c + horizontalGap c]"

definition rowYs :: "DoorConfig \<Rightarrow> number list" where
  "rowYs c = [topMargin c, topMargin c + topUnitHeight c + verticalGap c]"

definition unitHs :: "DoorConfig \<Rightarrow> number list" where
  "unitHs c = [topUnitHeight c, bottomUnitHeight c]"

definition labels :: "string list" where
  "labels = [''Top-Left'', ''Top-Right'', ''Bottom-Left'', ''Bottom-Right'']"

definition unitPosition :: "DoorConfig \<Rightarrow> nat \<Rightarrow> nat \<Rightarrow> UnitPosition" where
  "unitPosition c ri ci =
     (let lx = colXs c ! ci;
          rx = colXs c ! ci + panelUnitWidth c;
          ty = rowYs c ! ri
      in \<lparr> label = labels ! (ri * 2 + ci),
           beadingLeftX = Math_round (lx * 10) / 10,
           beadingRightX = Math_round (rx * 10) / 10,
           beadingY = Math_round (ty * 10) / 10,
           pinX = Math_round ((lx + panelUnitWidth c / 2) * 10) / 10,
           pinY = Math_round ((ty + beadingWidth c / 2) * 10) / 10 \<rparr>)"

definition unitPositions' :: "DoorConfig \<Rightarrow> UnitPosition list" where
  "unitPositions' c =
     concat (map (\<lambda>ri. map (\<lambda>ci. unitPosition c ri ci) [0..<2]) [0..<2])"

subsection \<open>\<open>calculateCuts\<close> (lines 102--205)\<close>

text \<open>
  The function has no \<open>throw\<close>, no early \<open>return\<close> and no call that can raise
  (\<open>toFixed(1)\<close> accepts every number), so its one exit is the record literal of
  lines 187--204.
\<close>

definition calculateCuts :: "DoorConfig \<Rightarrow> CutResult" where
  "calculateCuts c = \<lparr>
     panelWidth = r (panelWidth' c),
     topPanelHeight = r (topPanelHeight' c),
     bottomPanelHeight = r (bottomPanelHeight' c),
     topHorizontalBeading = r (topHBeading c),
     topVerticalBeading = r (topVBeading c),
     bottomHorizontalBeading = r (botHBeading c),
     bottomVerticalBeading = r (botVBeading c),
     topHorizontalBeadingShort = r (topHBeading c - 2 * beadingWidth c),
     topVerticalBeadingShort = r (topVBeading c - 2 * beadingWidth c),
     bottomHorizontalBeadingShort = r (botHBeading c - 2 * beadingWidth c),
     bottomVerticalBeadingShort = r (botVBeading c - 2 * beadingWidth c),
     panelBeadingGap = r (panelBeadingGap' c),
     unitPositions = unitPositions' c,
     handleWarnings = handleWarnings' c,
     isValid = (length (errors' c) = 0),
     errors = errors' c \<rparr>"

section \<open>Properties\<close>

lemmas local_defs =
  availableWidth_def availableHeight_def panelUnitWidth_def panelWidth'_def
  panelBeadingGap'_def topUnitHeight_def bottomUnitHeight_def topPanelHeight'_def
  bottomPanelHeight'_def topHBeading_def topVBeading_def botHBeading_def botVBeading_def

lemmas handle_defs =
  handleMargin_def handleTop_def handleBottom_def topUnitTop_def topUnitBottom_def
  bottomUnitTop_def bottomUnitBottom_def overlapsTop_def overlapsBottom_def overlap_def
  handleWarnings'_def

lemmas round_defs = r_def Math_round_def

subsection \<open>Rounding to one decimal place\<close>

text \<open>
  \<open>r v\<close> is a whole number of tenths, at most 0.05 above \<open>v\<close> and less than 0.05
  below it, and it is the only such number: \<open>r\<close> rounds to one decimal place,
  a tie going up.
\<close>

lemma r_tenths: "\<exists>k::int. r v = of_int k / 10"
  unfolding r_def Math_round_def by blast

lemma r_upper: "r v \<le> v + 1 / 20"
proof -
  have "of_int \<lfloor>v * 10 + 1 / 2\<rfloor> \<le> v * 10 + 1 / 2"
    by (rule of_int_floor_le)
  then show ?thesis
    unfolding r_def Math_round_def by (simp add: field_simps)
qed

lemma r_lower: "v - 1 / 20 < r v"
proof -
  have "v * 10 + 1 / 2 < of_int \<lfloor>v * 10 + 1 / 2\<rfloor> + 1"
    by linarith
  then show ?thesis
    unfolding r_def Math_round_def by (simp add: field_simps)
qed

lemma r_unique:
  assumes "y = of_int k / 10" and "v - 1 / 20 < y" and "y \<le> v + 1 / 20"
  shows "r v = y"
proof -
  have "of_int k \<le> v * 10 + 1 / 2" and "v * 10 + 1 / 2 < of_int k + 1"
    using assms by (simp_all add: field_simps)
  then have "\<lfloor>v * 10 + 1 / 2\<rfloor> = k"
    by (rule floor_unique)
  then show ?thesis
    unfolding r_def Math_round_def using assms(1) by simp
qed




lemma r_short_close: "\<bar>r (v - d) - (r v - d)\<bar> < 1 / 10"
  using r_lower [of v] r_upper [of v] r_lower [of "v - d"] r_upper [of "v - d"]
  by linarith


subsection \<open>C1: Scenario A, the default configuration\<close>

text \<open>
  The scenario's width figures do not come out of \<open>calculateCuts\<close>. With the
  defaults the three subtractions of line 107 give 762 - 80 - 80 - 80 = 522, not
  602 (which is 762 - 80 - 80, the horizontal gap left in). Every figure that
  depends on the width is off accordingly: the unit width, the panel-beading gap,
  both panel heights (they use the gap) and the horizontal beading lengths.
\<close>

theorem scenario_A_as_stated_fails:
  "availableWidth defaultConfig \<noteq> 602 \<and>
   panelUnitWidth defaultConfig \<noteq> 301 \<and>
   panelBeadingGap (calculateCuts defaultConfig) \<noteq> 23 \<and>
   topPanelHeight (calculateCuts defaultConfig) \<noteq> 5944 / 10 \<and>
   bottomPanelHeight (calculateCuts defaultConfig) \<noteq> 9346 / 10 \<and>
   topHorizontalBeading (calculateCuts defaultConfig) \<noteq> 301 \<and>
   topHorizontalBeadingShort (calculateCuts defaultConfig) \<noteq> 261"
  by (simp add: calculateCuts_def defaultConfig_def local_defs round_defs)

text \<open>
  Claim C1, amended. On the default configuration (whatever the four handle
  fields are) \<open>calculateCuts\<close> yields availableWidth = 522, panelUnitWidth = 261,
  panelBeadingGap = 3, availableHeight = 1701, the top unit height returned as
  topVerticalBeading = 680.4, the bottom unit height returned as
  bottomVerticalBeading = 1020.6, topPanelHeight = 634.4, bottomPanelHeight =
  974.6, topHorizontalBeading = 261, topHorizontalBeadingShort = 221 and
  isValid = true.
\<close>

theorem scenario_A_values:
  "(let c = defaultConfig\<lparr>handleSide := s, handleHeight := h, handleIndent := i,
              handleSpread := sp\<rparr>;
        R = calculateCuts c
    in availableWidth c = 522 \<and>
       panelUnitWidth c = 261 \<and>
       panelBeadingGap R = 3 \<and>
       availableHeight c = 1701 \<and>
       topVerticalBeading R = 6804 / 10 \<and>
       bottomVerticalBeading R = 10206 / 10 \<and>
       topPanelHeight R = 6344 / 10 \<and>
       bottomPanelHeight R = 9746 / 10 \<and>
       topHorizontalBeading R = 261 \<and>
       topHorizontalBeadingShort R = 221 \<and>
       isValid R)"
  by (simp add: Let_def calculateCuts_def defaultConfig_def local_defs round_defs errors'_def)

subsection \<open>C2: the row sum\<close>


text \<open>
  The two returned heights are rounded one by one, so their sum can be up to 0.1
  away from the exact figure, not 0.05: a door 1981.125 high split 50/50 has
  unit heights of 850.5625 each, both returned as 850.6, and 1701.2 is 0.075
  above the available 1701.125.
\<close>

lemma row_sum_needs_a_tenth:
  "(let c = defaultConfig\<lparr>doorHeight := 1981 + 1 / 8, topPanelRatio := 50\<rparr>;
        R = calculateCuts c
    in topVerticalBeading R = 8506 / 10 \<and> bottomVerticalBeading R = 8506 / 10 \<and>
       availableHeight c = 1701 + 1 / 8 \<and>
       \<not> \<bar>topVerticalBeading R + bottomVerticalBeading R - availableHeight c\<bar> \<le> 1 / 20)"
  by (simp add: Let_def calculateCuts_def defaultConfig_def local_defs round_defs)



subsection \<open>C3: the derivation formulas\<close>


subsection \<open>C4: totality and the errors\<close>


text \<open>
  Warnings and validity come in all four combinations: the default door has a
  warning and is valid; with a handle spread of 50 it has none and is valid; with
  a panel 400 wide it is invalid, with the warning or without.
\<close>

lemma warnings_and_validity_independent:
  "handleWarnings (calculateCuts defaultConfig) = [HandleWarning 60 left 140] \<and>
   isValid (calculateCuts defaultConfig) \<and>
   handleWarnings (calculateCuts (defaultConfig\<lparr>handleSpread := 50\<rparr>)) = [] \<and>
   isValid (calculateCuts (defaultConfig\<lparr>handleSpread := 50\<rparr>)) \<and>
   handleWarnings (calculateCuts (defaultConfig\<lparr>mdfPanelWidth := 400\<rparr>))
     = [HandleWarning 60 left 140] \<and>
   \<not> isValid (calculateCuts (defaultConfig\<lparr>mdfPanelWidth := 400\<rparr>)) \<and>
   handleWarnings (calculateCuts (defaultConfig\<lparr>mdfPanelWidth := 400, handleSpread := 50\<rparr>))
     = [] \<and>
   \<not> isValid (calculateCuts (defaultConfig\<lparr>mdfPanelWidth := 400, handleSpread := 50\<rparr>))"
  by (simp add: calculateCuts_def defaultConfig_def errors'_def local_defs handle_defs)

text \<open>
  The conditions are tested on the unrounded locals, the result holds the rounded
  ones: a panel 221.03125 wide leaves a gap of -0.015625, which is an error, and
  the returned panelBeadingGap is 0.
\<close>

lemma errors_decided_before_rounding:
  "(let c = defaultConfig\<lparr>mdfPanelWidth := 221 + 1 / 32\<rparr>
    in panelBeadingGap' c = - (1 / 64) \<and>
       panelBeadingGap (calculateCuts c) = 0 \<and>
       errors (calculateCuts c) = [ErrPanelTooWide] \<and>
       \<not> isValid (calculateCuts c))"
  by (simp add: Let_def calculateCuts_def defaultConfig_def errors'_def local_defs round_defs)

subsection \<open>C5: short point and long point\<close>




text \<open>For any beading width the two sides differ by less than 0.1.\<close>

lemma short_point_within_a_tenth:
  "\<bar>topHorizontalBeadingShort (calculateCuts c)
      - (topHorizontalBeading (calculateCuts c) - 2 * beadingWidth c)\<bar> < 1 / 10 \<and>
   \<bar>topVerticalBeadingShort (calculateCuts c)
      - (topVerticalBeading (calculateCuts c) - 2 * beadingWidth c)\<bar> < 1 / 10 \<and>
   \<bar>bottomHorizontalBeadingShort (calculateCuts c)
      - (bottomHorizontalBeading (calculateCuts c) - 2 * beadingWidth c)\<bar> < 1 / 10 \<and>
   \<bar>bottomVerticalBeadingShort (calculateCuts c)
      - (bottomVerticalBeading (calculateCuts c) - 2 * beadingWidth c)\<bar> < 1 / 10"
  using r_short_close [of "topHBeading c" "2 * beadingWidth c"]
    r_short_close [of "topVBeading c" "2 * beadingWidth c"]
    r_short_close [of "botHBeading c" "2 * beadingWidth c"]
    r_short_close [of "botVBeading c" "2 * beadingWidth c"]
  by (simp add: calculateCuts_def)

subsection \<open>C6: when the handle warning appears\<close>



text \<open>
  For a span of positive length the strict test says that the band and the span
  overlap in more than a point: their interiors meet.
\<close>

lemma strict_overlap_open_intervals:
  fixes a b h :: real
  assumes "a < b"
  shows "h + 80 > a \<and> h - 80 < b \<longleftrightarrow> {h - 80 <..< h + 80} \<inter> {a <..< b} \<noteq> {}"
  using assms by (simp add: not_le)

subsection \<open>C7: the unit positions\<close>


subsection \<open>C8: validity as a function of \<open>mdfPanelWidth\<close>\<close>






subsection \<open>C9: \<open>handleIndent\<close> is never read\<close>

text \<open>
  Claim C9. Two configurations that differ in handleIndent only give the same
  CutResult: changing handleIndent to any value changes no field of the result.
\<close>

theorem handleIndent_noninterference:
  "calculateCuts (c\<lparr>handleIndent := x\<rparr>) = calculateCuts c"
  by (simp add: calculateCuts_def local_defs handle_defs errors'_def
      unitPositions'_def unitPosition_def colXs_def rowYs_def)

subsection \<open>C10: at most one handle warning\<close>

text \<open>
  Claim C10. For every configuration handleWarnings has at most one entry: the
  one \<open>push\<close> of line 156 is guarded by \<open>overlapsTop || overlapsBottom\<close>, so a
  handle that reaches past its margin with a band over both rows gives exactly
  one warning, not one per row.
\<close>

theorem at_most_one_handle_warning:
  "length (handleWarnings (calculateCuts c)) \<le> 1 \<and>
   (handleSpread c > handleMargin c \<and> overlapsTop c \<and> overlapsBottom c \<longrightarrow>
      length (handleWarnings (calculateCuts c)) = 1)"
  by (simp add: calculateCuts_def handleWarnings'_def)

text \<open>
  With the handle 820 from the top of the default door the band [740, 900] lies
  over the end of the top row (780.4) and the start of the bottom row (860.4).
\<close>

theorem at_most_one_handle_warning_witness:
  "handleSpread (defaultConfig\<lparr>handleHeight := 820\<rparr>)
     > handleMargin (defaultConfig\<lparr>handleHeight := 820\<rparr>) \<and>
   overlapsTop (defaultConfig\<lparr>handleHeight := 820\<rparr>) \<and>
   overlapsBottom (defaultConfig\<lparr>handleHeight := 820\<rparr>) \<and>
   length (handleWarnings (calculateCuts (defaultConfig\<lparr>handleHeight := 820\<rparr>))) = 1"
proof -
  have h: "handleSpread (defaultConfig\<lparr>handleHeight := 820\<rparr>)
       > handleMargin (defaultConfig\<lparr>handleHeight := 820\<rparr>) \<and>
     overlapsTop (defaultConfig\<lparr>handleHeight := 820\<rparr>) \<and>
     overlapsBottom (defaultConfig\<lparr>handleHeight := 820\<rparr>)"
    by (simp add: defaultConfig_def handle_defs local_defs)
  from at_most_one_handle_warning [of "defaultConfig\<lparr>handleHeight := 820\<rparr>"] h
  show ?thesis
    by blast
qed

end
